theory Spec2Isabelle
  imports Main "HOL-Library.AList"
begin

section \<open>Python values\<close>

text \<open>
  The values that cross the tool boundary: \<open>None\<close>, booleans, unbounded integers,
  strings, lists and insertion-ordered dictionaries with string keys.
\<close>

datatype pyval =
    PNone
  | PBool bool
  | PInt int
  | PStr string
  | PList "pyval list"
  | PDict "(string \<times> pyval) list"

section \<open>config.py\<close>

subsection \<open>Reading the environment\<close>

type_synonym environ = "string \<rightharpoonup> string"

text \<open>\<open>os.environ.get(key, default)\<close>.\<close>

definition environ_get :: "environ \<Rightarrow> string \<Rightarrow> string \<Rightarrow> string" where
  "environ_get env key dflt = (case env key of None \<Rightarrow> dflt | Some v \<Rightarrow> v)"

text \<open>
  \<open>str.lower()\<close> on the ASCII letters; every other character is kept. The only use of
  \<open>lower\<close> in the module is the comparison with the ASCII literal \<open>"true"\<close>.
\<close>

definition lower_char :: "char \<Rightarrow> char" where
  "lower_char c =
     (let n = (of_char c :: nat) in if 65 \<le> n \<and> n \<le> 90 then char_of (n + 32) else c)"

definition lower :: "string \<Rightarrow> string" where
  "lower s = map lower_char s"

text \<open>The pattern \<open>os.environ.get(NAME, DEFAULT).lower() == "true"\<close>.\<close>

definition environ_flag :: "environ \<Rightarrow> string \<Rightarrow> string \<Rightarrow> bool" where
  "environ_flag env key dflt = (lower (environ_get env key dflt) = ''true'')"

subsection \<open>The module constants\<close>

text \<open>
  The constants that \<open>config.py\<close> binds at import time. The record holds the values
  after import; the field names are the names of the module.
\<close>

record config =
  MONGODB_URI :: string
  MONGODB_DEFAULT_DB :: "string option"
  MONGODB_MIN_POOL_SIZE :: int
  MONGODB_MAX_POOL_SIZE :: int
  MONGODB_MAX_IDLE_TIME_MS :: int
  MONGODB_SERVER_SELECTION_TIMEOUT_MS :: int
  MONGODB_SOCKET_TIMEOUT_MS :: int
  MONGODB_CONNECT_TIMEOUT_MS :: int
  MONGODB_MAX_DOCUMENTS_LIMIT :: int
  MONGODB_DEFAULT_BATCH_SIZE :: int
  MONGODB_TLS_ENABLED :: bool
  MONGODB_TLS_CA_FILE :: "string option"
  MONGODB_TLS_CERT_FILE :: "string option"
  MONGODB_TLS_KEY_FILE :: "string option"
  MONGODB_AUTH_SOURCE :: string
  MONGODB_AUTH_MECHANISM :: "string option"
  MONGODB_READ_PREFERENCE :: string
  MONGODB_WRITE_CONCERN_W :: string
  MONGODB_WRITE_CONCERN_J :: bool
  MONGODB_READ_CONCERN_LEVEL :: string
  ENABLE_DANGEROUS_OPERATIONS :: bool
  ENABLE_ADMIN_OPERATIONS :: bool
  ENABLE_INDEX_OPERATIONS :: bool
  MCP_TRANSPORT :: string
  MCP_HOST :: string
  MCP_PORT :: int

text \<open>
  The import of \<open>config.py\<close>, for an import that succeeds. The conversions
  \<open>int(os.environ.get(NAME, DEFAULT))\<close> are not re-derived: \<open>ints NAME\<close> is the
  integer that the conversion produced for the variable \<open>NAME\<close>. Everything else is
  computed from the environment as the module does.
\<close>

definition load_config :: "environ \<Rightarrow> (string \<Rightarrow> int) \<Rightarrow> config" where
  "load_config env ints = \<lparr>
     MONGODB_URI = environ_get env ''MONGODB_URI'' ''mongodb://localhost:27017'',
     MONGODB_DEFAULT_DB = env ''MONGODB_DEFAULT_DB'',
     MONGODB_MIN_POOL_SIZE = ints ''MONGODB_MIN_POOL_SIZE'',
     MONGODB_MAX_POOL_SIZE = ints ''MONGODB_MAX_POOL_SIZE'',
     MONGODB_MAX_IDLE_TIME_MS = ints ''MONGODB_MAX_IDLE_TIME_MS'',
     MONGODB_SERVER_SELECTION_TIMEOUT_MS = ints ''MONGODB_SERVER_SELECTION_TIMEOUT_MS'',
     MONGODB_SOCKET_TIMEOUT_MS = ints ''MONGODB_SOCKET_TIMEOUT_MS'',
     MONGODB_CONNECT_TIMEOUT_MS = ints ''MONGODB_CONNECT_TIMEOUT_MS'',
     MONGODB_MAX_DOCUMENTS_LIMIT = ints ''MONGODB_MAX_DOCUMENTS_LIMIT'',
     MONGODB_DEFAULT_BATCH_SIZE = ints ''MONGODB_DEFAULT_BATCH_SIZE'',
     MONGODB_TLS_ENABLED = environ_flag env ''MONGODB_TLS_ENABLED'' ''false'',
     MONGODB_TLS_CA_FILE = env ''MONGODB_TLS_CA_FILE'',
     MONGODB_TLS_CERT_FILE = env ''MONGODB_TLS_CERT_FILE'',
     MONGODB_TLS_KEY_FILE = env ''MONGODB_TLS_KEY_FILE'',
     MONGODB_AUTH_SOURCE = environ_get env ''MONGODB_AUTH_SOURCE'' ''admin'',
     MONGODB_AUTH_MECHANISM = env ''MONGODB_AUTH_MECHANISM'',
     MONGODB_READ_PREFERENCE = environ_get env ''MONGODB_READ_PREFERENCE'' ''primary'',
     MONGODB_WRITE_CONCERN_W = environ_get env ''MONGODB_WRITE_CONCERN_W'' ''1'',
     MONGODB_WRITE_CONCERN_J = environ_flag env ''MONGODB_WRITE_CONCERN_J'' ''false'',
     MONGODB_READ_CONCERN_LEVEL = environ_get env ''MONGODB_READ_CONCERN_LEVEL'' ''local'',
     ENABLE_DANGEROUS_OPERATIONS = environ_flag env ''ENABLE_DANGEROUS_OPERATIONS'' ''false'',
     ENABLE_ADMIN_OPERATIONS = environ_flag env ''ENABLE_ADMIN_OPERATIONS'' ''true'',
     ENABLE_INDEX_OPERATIONS = environ_flag env ''ENABLE_INDEX_OPERATIONS'' ''true'',
     MCP_TRANSPORT = environ_get env ''MCP_TRANSPORT'' ''sse'',
     MCP_HOST = environ_get env ''MCP_HOST'' ''0.0.0.0'',
     MCP_PORT = ints ''MCP_PORT''
   \<rparr>"

text \<open>
  The integers that the conversions produce when no variable is set: the defaults
  \<open>"0"\<close>, \<open>"100"\<close>, \<open>"30000"\<close>, \<open>"30000"\<close>, \<open>"0"\<close>, \<open>"20000"\<close>, \<open>"1000"\<close>, \<open>"100"\<close> and
  \<open>"8000"\<close> written in the module.
\<close>

definition default_ints :: "string \<Rightarrow> int" where
  "default_ints name =
     (if name = ''MONGODB_MIN_POOL_SIZE'' then 0
      else if name = ''MONGODB_MAX_POOL_SIZE'' then 100
      else if name = ''MONGODB_MAX_IDLE_TIME_MS'' then 30000
      else if name = ''MONGODB_SERVER_SELECTION_TIMEOUT_MS'' then 30000
      else if name = ''MONGODB_SOCKET_TIMEOUT_MS'' then 0
      else if name = ''MONGODB_CONNECT_TIMEOUT_MS'' then 20000
      else if name = ''MONGODB_MAX_DOCUMENTS_LIMIT'' then 1000
      else if name = ''MONGODB_DEFAULT_BATCH_SIZE'' then 100
      else if name = ''MCP_PORT'' then 8000
      else 0)"

subsection \<open>get_connection_options\<close>

text \<open>A Python dictionary with string keys, in insertion order.\<close>

type_synonym pydict = "(string \<times> pyval) list"

text \<open>\<open>d[key] = value\<close>: replaces the value of an existing key, appends a new key.\<close>

definition setitem :: "string \<Rightarrow> pyval \<Rightarrow> pydict \<Rightarrow> pydict" where
  "setitem key v d = AList.update key v d"

text \<open>The three conditional blocks of the function, in the order of the source.\<close>

definition add_socket_timeout :: "config \<Rightarrow> pydict \<Rightarrow> pydict" where
  "add_socket_timeout c options =
     (if MONGODB_SOCKET_TIMEOUT_MS c > 0
      then setitem ''socketTimeoutMS'' (PInt (MONGODB_SOCKET_TIMEOUT_MS c)) options
      else options)"

definition add_tls_options :: "config \<Rightarrow> pydict \<Rightarrow> pydict" where
  "add_tls_options c options =
     (if MONGODB_TLS_ENABLED c
      then (let options = setitem ''tls'' (PBool True) options;
                options = (case MONGODB_TLS_CA_FILE c of
                             Some f \<Rightarrow> if f \<noteq> [] then setitem ''tlsCAFile'' (PStr f) options
                                       else options
                           | None \<Rightarrow> options);
                options = (case MONGODB_TLS_CERT_FILE c of
                             Some f \<Rightarrow> if f \<noteq> []
                                       then setitem ''tlsCertificateKeyFile'' (PStr f) options
                                       else options
                           | None \<Rightarrow> options)
            in options)
      else options)"

definition add_auth_mechanism :: "config \<Rightarrow> pydict \<Rightarrow> pydict" where
  "add_auth_mechanism c options =
     (case MONGODB_AUTH_MECHANISM c of
        Some m \<Rightarrow> if m \<noteq> [] then setitem ''authMechanism'' (PStr m) options else options
      | None \<Rightarrow> options)"

definition get_connection_options :: "config \<Rightarrow> pydict" where
  "get_connection_options c =
     (let options = [
            (''minPoolSize'', PInt (MONGODB_MIN_POOL_SIZE c)),
            (''maxPoolSize'', PInt (MONGODB_MAX_POOL_SIZE c)),
            (''maxIdleTimeMS'', PInt (MONGODB_MAX_IDLE_TIME_MS c)),
            (''serverSelectionTimeoutMS'', PInt (MONGODB_SERVER_SELECTION_TIMEOUT_MS c)),
            (''connectTimeoutMS'', PInt (MONGODB_CONNECT_TIMEOUT_MS c)),
            (''authSource'', PStr (MONGODB_AUTH_SOURCE c))];
          options = add_socket_timeout c options;
          options = add_tls_options c options;
          options = add_auth_mechanism c options
      in options)"

section \<open>server.py\<close>

subsection \<open>The imported tools module\<close>

text \<open>
  The thirty functions that \<open>server.py\<close> imports from \<open>mongo_mcp.tools\<close>. The module
  is a parameter of the wrappers: \<open>T f args\<close> is the outcome of calling the function
  \<open>f\<close> of the module with the positional arguments \<open>args\<close>, of whatever type \<open>'r\<close>
  an outcome has (a value, or a computation on a state that may raise).
\<close>

datatype tool_fn =
    list_databases | list_collections | create_database | drop_database
  | get_database_stats | create_collection | drop_collection | rename_collection
  | get_collection_stats
  | insert_document | insert_many_documents | find_documents | find_one_document
  | count_documents | update_document | replace_document | delete_document
  | list_indexes | create_index | create_text_index | create_compound_index
  | drop_index | reindex_collection
  | aggregate_documents | distinct_values
  | get_server_status | get_replica_set_status | ping_database
  | test_mongodb_connection | get_connection_details

type_synonym 'r tools = "tool_fn \<Rightarrow> pyval list \<Rightarrow> 'r"

subsection \<open>The wrappers\<close>

text \<open>
  A parameter with a default value is an optional argument of the wrapper: \<open>None\<close> when
  the caller leaves it out, and then the default of the signature is bound.
\<close>

definition arg_default :: "pyval \<Rightarrow> pyval option \<Rightarrow> pyval" where
  "arg_default dflt a = (case a of None \<Rightarrow> dflt | Some v \<Rightarrow> v)"

definition mcp_list_databases :: "'r tools \<Rightarrow> 'r" where
  "mcp_list_databases T = T list_databases []"

definition mcp_list_collections :: "'r tools \<Rightarrow> pyval \<Rightarrow> 'r" where
  "mcp_list_collections T database_name = T list_collections [database_name]"

definition mcp_create_database :: "'r tools \<Rightarrow> pyval \<Rightarrow> pyval option \<Rightarrow> pyval option \<Rightarrow> 'r" where
  "mcp_create_database T database_name initial_collection initial_document =
     T create_database [database_name, arg_default (PStr ''init'') initial_collection,
                        arg_default PNone initial_document]"

definition mcp_drop_database :: "'r tools \<Rightarrow> pyval \<Rightarrow> 'r" where
  "mcp_drop_database T database_name = T drop_database [database_name]"

definition mcp_get_database_stats :: "'r tools \<Rightarrow> pyval \<Rightarrow> 'r" where
  "mcp_get_database_stats T database_name = T get_database_stats [database_name]"

definition mcp_create_collection :: "'r tools \<Rightarrow> pyval \<Rightarrow> pyval \<Rightarrow> pyval option \<Rightarrow> 'r" where
  "mcp_create_collection T database_name collection_name options =
     T create_collection [database_name, collection_name, arg_default PNone options]"

definition mcp_drop_collection :: "'r tools \<Rightarrow> pyval \<Rightarrow> pyval \<Rightarrow> 'r" where
  "mcp_drop_collection T database_name collection_name =
     T drop_collection [database_name, collection_name]"

definition mcp_rename_collection :: "'r tools \<Rightarrow> pyval \<Rightarrow> pyval \<Rightarrow> pyval \<Rightarrow> 'r" where
  "mcp_rename_collection T database_name old_name new_name =
     T rename_collection [database_name, old_name, new_name]"

definition mcp_get_collection_stats :: "'r tools \<Rightarrow> pyval \<Rightarrow> pyval \<Rightarrow> 'r" where
  "mcp_get_collection_stats T database_name collection_name =
     T get_collection_stats [database_name, collection_name]"

definition mcp_insert_document :: "'r tools \<Rightarrow> pyval \<Rightarrow> pyval \<Rightarrow> pyval \<Rightarrow> 'r" where
  "mcp_insert_document T database_name collection_name document =
     T insert_document [database_name, collection_name, document]"

definition mcp_insert_many_documents ::
    "'r tools \<Rightarrow> pyval \<Rightarrow> pyval \<Rightarrow> pyval \<Rightarrow> pyval option \<Rightarrow> 'r" where
  "mcp_insert_many_documents T database_name collection_name documents ordered =
     T insert_many_documents [database_name, collection_name, documents,
                              arg_default (PBool True) ordered]"

definition mcp_find_documents ::
    "'r tools \<Rightarrow> pyval \<Rightarrow> pyval \<Rightarrow> pyval \<Rightarrow> pyval option \<Rightarrow> pyval option \<Rightarrow> pyval option \<Rightarrow> 'r" where
  "mcp_find_documents T database_name collection_name query projection limit sort_arg =
     T find_documents [database_name, collection_name, query, arg_default PNone projection,
                       arg_default (PInt 0) limit, arg_default PNone sort_arg]"

definition mcp_find_one_document ::
    "'r tools \<Rightarrow> pyval \<Rightarrow> pyval \<Rightarrow> pyval \<Rightarrow> pyval option \<Rightarrow> 'r" where
  "mcp_find_one_document T database_name collection_name query projection =
     T find_one_document [database_name, collection_name, query, arg_default PNone projection]"

definition mcp_count_documents :: "'r tools \<Rightarrow> pyval \<Rightarrow> pyval \<Rightarrow> pyval \<Rightarrow> 'r" where
  "mcp_count_documents T database_name collection_name query =
     T count_documents [database_name, collection_name, query]"

definition mcp_update_document ::
    "'r tools \<Rightarrow> pyval \<Rightarrow> pyval \<Rightarrow> pyval \<Rightarrow> pyval \<Rightarrow> pyval option \<Rightarrow> pyval option \<Rightarrow> 'r" where
  "mcp_update_document T database_name collection_name query update_data upsert update_many =
     T update_document [database_name, collection_name, query, update_data,
                        arg_default (PBool False) upsert, arg_default (PBool False) update_many]"

definition mcp_replace_document ::
    "'r tools \<Rightarrow> pyval \<Rightarrow> pyval \<Rightarrow> pyval \<Rightarrow> pyval \<Rightarrow> pyval option \<Rightarrow> 'r" where
  "mcp_replace_document T database_name collection_name query replacement upsert =
     T replace_document [database_name, collection_name, query, replacement,
                         arg_default (PBool False) upsert]"

definition mcp_delete_document ::
    "'r tools \<Rightarrow> pyval \<Rightarrow> pyval \<Rightarrow> pyval \<Rightarrow> pyval option \<Rightarrow> 'r" where
  "mcp_delete_document T database_name collection_name query delete_many =
     T delete_document [database_name, collection_name, query,
                        arg_default (PBool False) delete_many]"

definition mcp_list_indexes :: "'r tools \<Rightarrow> pyval \<Rightarrow> pyval \<Rightarrow> 'r" where
  "mcp_list_indexes T database_name collection_name =
     T list_indexes [database_name, collection_name]"

definition mcp_create_index :: "'r tools \<Rightarrow> pyval \<Rightarrow> pyval \<Rightarrow> pyval \<Rightarrow> pyval option \<Rightarrow> 'r" where
  "mcp_create_index T database_name collection_name keys options =
     T create_index [database_name, collection_name, keys, arg_default PNone options]"

definition mcp_create_text_index ::
    "'r tools \<Rightarrow> pyval \<Rightarrow> pyval \<Rightarrow> pyval \<Rightarrow> pyval option \<Rightarrow> 'r" where
  "mcp_create_text_index T database_name collection_name fields_arg options =
     T create_text_index [database_name, collection_name, fields_arg, arg_default PNone options]"

definition mcp_create_compound_index ::
    "'r tools \<Rightarrow> pyval \<Rightarrow> pyval \<Rightarrow> pyval \<Rightarrow> pyval option \<Rightarrow> 'r" where
  "mcp_create_compound_index T database_name collection_name field_specs options =
     T create_compound_index [database_name, collection_name, field_specs,
                              arg_default PNone options]"

definition mcp_drop_index :: "'r tools \<Rightarrow> pyval \<Rightarrow> pyval \<Rightarrow> pyval \<Rightarrow> 'r" where
  "mcp_drop_index T database_name collection_name index_name =
     T drop_index [database_name, collection_name, index_name]"

definition mcp_reindex_collection :: "'r tools \<Rightarrow> pyval \<Rightarrow> pyval \<Rightarrow> 'r" where
  "mcp_reindex_collection T database_name collection_name =
     T reindex_collection [database_name, collection_name]"

definition mcp_aggregate_documents ::
    "'r tools \<Rightarrow> pyval \<Rightarrow> pyval \<Rightarrow> pyval \<Rightarrow> pyval option \<Rightarrow> 'r" where
  "mcp_aggregate_documents T database_name collection_name pipeline options =
     T aggregate_documents [database_name, collection_name, pipeline, arg_default PNone options]"

definition mcp_distinct_values ::
    "'r tools \<Rightarrow> pyval \<Rightarrow> pyval \<Rightarrow> pyval \<Rightarrow> pyval option \<Rightarrow> 'r" where
  "mcp_distinct_values T database_name collection_name field query =
     T distinct_values [database_name, collection_name, field, arg_default PNone query]"

definition mcp_get_server_status :: "'r tools \<Rightarrow> 'r" where
  "mcp_get_server_status T = T get_server_status []"

definition mcp_get_replica_set_status :: "'r tools \<Rightarrow> 'r" where
  "mcp_get_replica_set_status T = T get_replica_set_status []"

definition mcp_ping_database :: "'r tools \<Rightarrow> pyval option \<Rightarrow> 'r" where
  "mcp_ping_database T database_name = T ping_database [arg_default PNone database_name]"

definition mcp_test_mongodb_connection :: "'r tools \<Rightarrow> 'r" where
  "mcp_test_mongodb_connection T = T test_mongodb_connection []"

definition mcp_get_connection_details :: "'r tools \<Rightarrow> 'r" where
  "mcp_get_connection_details T = T get_connection_details []"

subsection \<open>Registration with the FastMCP application\<close>

text \<open>
  The application keeps the tools it serves, by function name, in the order of their
  registration. \<open>app.tool()\<close> applied to a function registers it under its name.
\<close>

type_synonym fastmcp = "string list"

definition FastMCP :: fastmcp where
  "FastMCP = []"

definition app_tool :: "string \<Rightarrow> fastmcp \<Rightarrow> fastmcp" where
  "app_tool name a = a @ [name]"

text \<open>
  The wrapper definitions of the module in source order. The flag says whether the line
  above the \<open>def\<close> is the decorator \<open>@app.tool()\<close> (\<open>True\<close>) or the comment
  \<open># @app.tool()\<close> (\<open>False\<close>).
\<close>

definition wrapper_definitions :: "(string \<times> bool) list" where
  "wrapper_definitions = [
     (''mcp_list_databases'', True),
     (''mcp_list_collections'', True),
     (''mcp_create_database'', False),
     (''mcp_drop_database'', False),
     (''mcp_get_database_stats'', True),
     (''mcp_create_collection'', False),
     (''mcp_drop_collection'', False),
     (''mcp_rename_collection'', False),
     (''mcp_get_collection_stats'', True),
     (''mcp_insert_document'', False),
     (''mcp_insert_many_documents'', False),
     (''mcp_find_documents'', True),
     (''mcp_find_one_document'', True),
     (''mcp_count_documents'', True),
     (''mcp_update_document'', False),
     (''mcp_replace_document'', False),
     (''mcp_delete_document'', False),
     (''mcp_list_indexes'', True),
     (''mcp_create_index'', False),
     (''mcp_create_text_index'', False),
     (''mcp_create_compound_index'', False),
     (''mcp_drop_index'', False),
     (''mcp_reindex_collection'', False),
     (''mcp_aggregate_documents'', True),
     (''mcp_distinct_values'', True),
     (''mcp_get_server_status'', True),
     (''mcp_get_replica_set_status'', True),
     (''mcp_ping_database'', True),
     (''mcp_test_mongodb_connection'', True),
     (''mcp_get_connection_details'', True)]"

text \<open>Executing the definitions: only a decorated one reaches the application.\<close>

fun execute_definitions :: "(string \<times> bool) list \<Rightarrow> fastmcp \<Rightarrow> fastmcp" where
  "execute_definitions [] a = a"
| "execute_definitions ((name, decorated) # ds) a =
     execute_definitions ds (if decorated then app_tool name a else a)"

definition app :: fastmcp where
  "app = execute_definitions wrapper_definitions FastMCP"

text \<open>The list \<open>mongo_tools\<close> of the module, by function name.\<close>

definition mongo_tools :: "string list" where
  "mongo_tools = [
     ''mcp_list_databases'', ''mcp_list_collections'', ''mcp_create_database'',
     ''mcp_drop_database'', ''mcp_get_database_stats'', ''mcp_create_collection'',
     ''mcp_drop_collection'', ''mcp_rename_collection'', ''mcp_get_collection_stats'',
     ''mcp_insert_document'', ''mcp_insert_many_documents'', ''mcp_find_documents'',
     ''mcp_find_one_document'', ''mcp_count_documents'', ''mcp_update_document'',
     ''mcp_replace_document'', ''mcp_delete_document'',
     ''mcp_list_indexes'', ''mcp_create_index'', ''mcp_create_text_index'',
     ''mcp_create_compound_index'', ''mcp_drop_index'', ''mcp_reindex_collection'',
     ''mcp_aggregate_documents'', ''mcp_distinct_values'',
     ''mcp_get_server_status'', ''mcp_get_replica_set_status'', ''mcp_ping_database'',
     ''mcp_test_mongodb_connection'', ''mcp_get_connection_details'']"

subsection \<open>Signals, start-up and shutdown\<close>

text \<open>
  The exceptions that matter to the module: \<open>SystemExit\<close>, raised by \<open>sys.exit\<close>, and
  every exception that derives from \<open>Exception\<close> (with its message). An
  \<open>except Exception\<close> clause catches the second kind only.
\<close>

datatype exn = SystemExit int | Exception string

definition is_Exception :: "exn \<Rightarrow> bool" where
  "is_Exception e = (case e of SystemExit code \<Rightarrow> False | Exception msg \<Rightarrow> True)"

text \<open>The pieces of a log message: literal text and the values formatted into it.\<close>

datatype frag = Text string | IntVal int | ExnVal exn

datatype run_args = RunNetwork string string int | RunStdio

text \<open>What the module calls, in the order of the calls.\<close>

datatype call =
    LoggerInfo "frag list"
  | LoggerWarning "frag list"
  | LoggerError "frag list"
  | CorsMiddleware
  | AppRun run_args
  | CloseConnection
  | SysExit int

text \<open>
  The signals that end a process unless a handler is installed. A process is running,
  has exited with a status, or was killed by a signal.
\<close>

datatype signum = SIGHUP | SIGINT | SIGQUIT | SIGTERM

datatype status = Running | Exited int | Killed signum

text \<open>
  The process: the configuration bound at import, the environment as it is now, the state
  \<open>'w\<close> of the imported modules \<open>mongo_mcp.db\<close> and \<open>mongo_mcp.tools\<close> (the
  connection and what reached the database), the calls made so far and whether the
  process has exited.
\<close>

record 'w process =
  conf :: config
  environ :: environ
  world :: 'w
  calls :: "call list"
  status :: status

definition logger_info :: "frag list \<Rightarrow> 'w process \<Rightarrow> 'w process" where
  "logger_info msg p = p\<lparr>calls := calls p @ [LoggerInfo msg]\<rparr>"

definition logger_warning :: "frag list \<Rightarrow> 'w process \<Rightarrow> 'w process" where
  "logger_warning msg p = p\<lparr>calls := calls p @ [LoggerWarning msg]\<rparr>"

definition logger_error :: "frag list \<Rightarrow> 'w process \<Rightarrow> 'w process" where
  "logger_error msg p = p\<lparr>calls := calls p @ [LoggerError msg]\<rparr>"

text \<open>
  The call \<open>close_connection()\<close>. The function is imported from \<open>mongo_mcp.db\<close>, which
  is not among the sources: it is the parameter \<open>close\<close>, any function on the state of
  the imported modules that returns or raises.
\<close>

definition do_close_connection ::
    "('w \<Rightarrow> (exn + unit) \<times> 'w) \<Rightarrow> 'w process \<Rightarrow> (exn + unit) \<times> 'w process" where
  "do_close_connection close p =
     (case close (world p) of
        (r, w) \<Rightarrow> (r, p\<lparr>world := w, calls := calls p @ [CloseConnection]\<rparr>))"

text \<open>\<open>sys.exit(code)\<close> raises \<open>SystemExit\<close>, which ends the process.\<close>

definition sys_exit :: "int \<Rightarrow> 'w process \<Rightarrow> (exn + unit) \<times> 'w process" where
  "sys_exit code p =
     (Inl (SystemExit code), p\<lparr>calls := calls p @ [SysExit code], status := Exited code\<rparr>)"

text \<open>
  The import of the module, from the environment \<open>env\<close> and the initial state \<open>w\<close> of
  the imported modules: the configuration is bound, the tool count is logged.
\<close>

definition boot :: "environ \<Rightarrow> (string \<Rightarrow> int) \<Rightarrow> 'w \<Rightarrow> 'w process" where
  "boot env ints w = \<lparr>
     conf = load_config env ints,
     environ = env,
     world = w,
     calls = [LoggerInfo [Text ''Registered '', IntVal (int (length mongo_tools)),
                          Text '' MongoDB tools with MCP server'']],
     status = Running\<rparr>"

definition signal_handler ::
    "('w \<Rightarrow> (exn + unit) \<times> 'w) \<Rightarrow> 's \<Rightarrow> 'f \<Rightarrow> 'w process \<Rightarrow> (exn + unit) \<times> 'w process" where
  "signal_handler close sig frame p =
     (let p1 = logger_info [Text ''Shutting down MCP server''] p
      in case do_close_connection close p1 of
           (Inl e, p2) \<Rightarrow> (Inl e, p2)
         | (Inr u, p2) \<Rightarrow> sys_exit 0 p2)"

text \<open>
  The signals for which the module installs \<open>signal_handler\<close>, with the two calls of
  \<open>signal.signal\<close>. The delivery of such a signal runs the handler, and the result is
  what the handler returns or raises. Any other signal keeps its default action: the
  process is killed, and no code of the module runs (the result is \<open>None\<close>).
\<close>

definition handled_signals :: "signum list" where
  "handled_signals = [SIGINT, SIGTERM]"

definition deliver ::
    "('w \<Rightarrow> (exn + unit) \<times> 'w) \<Rightarrow> signum \<Rightarrow> 'f \<Rightarrow> 'w process
       \<Rightarrow> (exn + unit) option \<times> 'w process" where
  "deliver close sig frame p =
     (if sig \<in> set handled_signals
      then (case signal_handler close sig frame p of (r, p') \<Rightarrow> (Some r, p'))
      else (None, p\<lparr>status := Killed sig\<rparr>))"

text \<open>
  What the FastMCP application does is not part of the module: whether it has the
  attribute \<open>asgi_app\<close> and whether wrapping it raises, and how \<open>app.run\<close> ends
  (\<open>None\<close> when it returns, the exception when it raises).
\<close>

datatype cors = NoAsgiApp | CorsWrapped | CorsRaised exn

definition add_cors :: "cors \<Rightarrow> 'w process \<Rightarrow> (exn + unit) \<times> 'w process" where
  "add_cors k p =
     (case k of
        NoAsgiApp \<Rightarrow> (Inr (), p)
      | CorsWrapped \<Rightarrow>
          (Inr (), logger_info [Text ''CORS middleware enabled for external access'']
                     (p\<lparr>calls := calls p @ [CorsMiddleware]\<rparr>))
      | CorsRaised e \<Rightarrow>
          if is_Exception e
          then (Inr (), logger_warning [Text ''Could not add CORS middleware: '', ExnVal e] p)
          else (Inl e, p))"

definition app_run :: "run_args \<Rightarrow> exn option \<Rightarrow> 'w process \<Rightarrow> (exn + unit) \<times> 'w process" where
  "app_run a outcome p =
     (case outcome of None \<Rightarrow> Inr () | Some e \<Rightarrow> Inl e, p\<lparr>calls := calls p @ [AppRun a]\<rparr>)"

text \<open>The body of the outer \<open>try\<close> of \<open>start_server\<close>.\<close>

definition start_body :: "cors \<Rightarrow> exn option \<Rightarrow> 'w process \<Rightarrow> (exn + unit) \<times> 'w process" where
  "start_body k outcome p =
     (case add_cors k p of
        (Inl e, p1) \<Rightarrow> (Inl e, p1)
      | (Inr u, p1) \<Rightarrow>
          if MCP_TRANSPORT (conf p1) \<in> set [''sse'', ''streamable-http'']
          then app_run (RunNetwork (MCP_TRANSPORT (conf p1)) (MCP_HOST (conf p1)) (MCP_PORT (conf p1)))
                 outcome
                 (logger_info [Text ''Starting MCP server with '', Text (MCP_TRANSPORT (conf p1)),
                               Text '' transport on '', Text (MCP_HOST (conf p1)), Text '':'',
                               IntVal (MCP_PORT (conf p1))] p1)
          else app_run RunStdio outcome
                 (logger_info [Text ''Starting MCP server with stdio transport''] p1))"

definition start_server ::
    "('w \<Rightarrow> (exn + unit) \<times> 'w) \<Rightarrow> cors \<Rightarrow> exn option \<Rightarrow> 'w process
       \<Rightarrow> (exn + unit) \<times> 'w process" where
  "start_server close k outcome p =
     (case start_body k outcome p of
        (Inr u, p1) \<Rightarrow> (Inr u, p1)
      | (Inl e, p1) \<Rightarrow>
          if is_Exception e
          then (let p2 = logger_error [Text ''Failed to start MCP server: '', ExnVal e] p1
                in case do_close_connection close p2 of
                     (Inl e', p3) \<Rightarrow> (Inl e', p3)
                   | (Inr u, p3) \<Rightarrow> sys_exit 1 p3)
          else (Inl e, p1))"

text \<open>
  The script: \<open>start_server()\<close> under \<open>if __name__ == "__main__"\<close>. When the call
  returns the script is at its end and the process exits with status \<open>0\<close>; a
  \<open>SystemExit\<close> that leaves the call ends the process with its code, and any other
  exception that leaves it ends the process with status \<open>1\<close>.
\<close>

definition main ::
    "('w \<Rightarrow> (exn + unit) \<times> 'w) \<Rightarrow> cors \<Rightarrow> exn option \<Rightarrow> 'w process \<Rightarrow> 'w process" where
  "main close k outcome p =
     (case start_server close k outcome p of
        (Inr u, p') \<Rightarrow> p'\<lparr>status := Exited 0\<rparr>
      | (Inl (SystemExit code), p') \<Rightarrow> p'\<lparr>status := Exited code\<rparr>
      | (Inl (Exception msg), p') \<Rightarrow> p'\<lparr>status := Exited 1\<rparr>)"

text \<open>
  What happens during the life of the process: the environment changes, a function of
  the tools module runs on behalf of a tool call, a signal arrives, the script starts
  the server. Nothing happens once the process has exited or was killed. \<open>tools\<close> is
  how a function of the tools module changes the state of the imported modules.
\<close>

datatype event =
    Putenv string string
  | ToolCall tool_fn "pyval list"
  | Signal signum
  | StartServer cors "exn option"

definition step ::
    "('w \<Rightarrow> (exn + unit) \<times> 'w) \<Rightarrow> (tool_fn \<Rightarrow> pyval list \<Rightarrow> 'w \<Rightarrow> 'w) \<Rightarrow> event
       \<Rightarrow> 'w process \<Rightarrow> 'w process" where
  "step close tools ev p =
     (if status p \<noteq> Running then p
      else case ev of
        Putenv key v \<Rightarrow> p\<lparr>environ := (environ p)(key \<mapsto> v)\<rparr>
      | ToolCall f args \<Rightarrow> p\<lparr>world := tools f args (world p)\<rparr>
      | Signal sig \<Rightarrow> snd (deliver close sig () p)
      | StartServer k outcome \<Rightarrow> main close k outcome p)"

fun run ::
    "('w \<Rightarrow> (exn + unit) \<times> 'w) \<Rightarrow> (tool_fn \<Rightarrow> pyval list \<Rightarrow> 'w \<Rightarrow> 'w) \<Rightarrow> event list
       \<Rightarrow> 'w process \<Rightarrow> 'w process" where
  "run close tools [] p = p"
| "run close tools (ev # evs) p = run close tools evs (step close tools ev p)"

subsection \<open>Concrete configurations\<close>

text \<open>An environment that sets every TLS, authentication and read/write variable.\<close>

definition tls_environ :: environ where
  "tls_environ = [
     ''MONGODB_TLS_ENABLED'' \<mapsto> ''true'',
     ''MONGODB_TLS_CA_FILE'' \<mapsto> ''ca.pem'',
     ''MONGODB_TLS_CERT_FILE'' \<mapsto> ''cert.pem'',
     ''MONGODB_TLS_KEY_FILE'' \<mapsto> ''key.pem'',
     ''MONGODB_AUTH_MECHANISM'' \<mapsto> ''SCRAM-SHA-256'',
     ''MONGODB_READ_PREFERENCE'' \<mapsto> ''secondary'',
     ''MONGODB_WRITE_CONCERN_W'' \<mapsto> ''majority'',
     ''MONGODB_WRITE_CONCERN_J'' \<mapsto> ''true'',
     ''MONGODB_READ_CONCERN_LEVEL'' \<mapsto> ''majority'']"


section \<open>The connection manager (mongo\_mcp.db)\<close>

text \<open>
  What lies outside the process: whether the database can be reached, what it answers to
  a primitive (\<open>Inl\<close> is the message of a driver failure), and the value codec.
\<close>

record collaborators =
  reachable :: bool
  respond :: "tool_fn \<Rightarrow> pyval list \<Rightarrow> string + pyval"
  encode :: "pyval \<Rightarrow> pyval"
  decode :: "pyval \<Rightarrow> pyval"

record handle =
  handle_uri :: string
  handle_options :: pydict

datatype conn_state = Uninitialized | ConnectionReady handle | Closed

text \<open>The interactions with the outside, oldest first.\<close>

datatype effect =
    HandleConstructed handle
  | SocketsReleased handle
  | DatabaseCall tool_fn "pyval list"

record world_state =
  connection :: conn_state
  effects :: "effect list"

definition initial_world :: world_state where
  "initial_world = \<lparr>connection = Uninitialized, effects = []\<rparr>"

text \<open>The error kinds of the gateway, and the operation classes of the capability gate.\<close>

datatype op_class = OpRead | OpWrite | OpDangerous | OpAdmin | OpIndex

datatype error =
    ValidationError
  | CapabilityDeniedError op_class
  | ConnectionError
  | DatabaseOperationError string

text \<open>
  Modelled from the spec: \<open>get_client\<close> of \<open>mongo_mcp.db\<close>, which is not among the
  sources. It is \<open>acquire()\<close> of the Connection Manager: it returns the shared handle and
  creates it on the first call from the configuration; it fails with \<open>ConnectionError\<close>
  when the transport cannot be established, and once shutdown has begun.
\<close>

definition get_client ::
    "config \<Rightarrow> collaborators \<Rightarrow> world_state \<Rightarrow> (error + handle) \<times> world_state" where
  "get_client c x w =
     (case connection w of
        ConnectionReady h \<Rightarrow> (Inr h, w)
      | Uninitialized \<Rightarrow>
          if reachable x
          then (let h = \<lparr>handle_uri = MONGODB_URI c, handle_options = get_connection_options c\<rparr>
                in (Inr h, w\<lparr>connection := ConnectionReady h,
                               effects := effects w @ [HandleConstructed h]\<rparr>))
          else (Inl ConnectionError, w)
      | Closed \<Rightarrow> (Inl ConnectionError, w))"

text \<open>
  Modelled from the spec: \<open>close_connection\<close> of \<open>mongo_mcp.db\<close>, which is not among
  the sources. It is \<open>close()\<close> of the Connection Manager: it releases the pooled sockets
  of a live handle; a second or later call is a no-op, and so is a call when \<open>acquire()\<close>
  was never invoked. The result type leaves room for an exception.
\<close>

definition close_connection :: "world_state \<Rightarrow> (exn + unit) \<times> world_state" where
  "close_connection w =
     (case connection w of
        ConnectionReady h \<Rightarrow>
          (Inr (), w\<lparr>connection := Closed, effects := effects w @ [SocketsReleased h]\<rparr>)
      | Uninitialized \<Rightarrow> (Inr (), w\<lparr>connection := Closed\<rparr>)
      | Closed \<Rightarrow> (Inr (), w))"

text \<open>
  \<open>k\<close> calls of \<open>close_connection\<close> in a row: the results of the calls, oldest first,
  and the state after the last one. A call that raises ends the sequence.
\<close>

fun close_times :: "nat \<Rightarrow> world_state \<Rightarrow> (exn + unit) list \<times> world_state" where
  "close_times 0 w = ([], w)"
| "close_times (Suc k) w =
     (case close_connection w of
        (Inl e, w') \<Rightarrow> ([Inl e], w')
      | (Inr u, w') \<Rightarrow> (case close_times k w' of (rs, w'') \<Rightarrow> (Inr u # rs, w'')))"

section \<open>The tool gateway (mongo\_mcp.tools)\<close>

text \<open>
  Modelled from the spec: the operation classes of the functions of \<open>mongo_mcp.tools\<close>,
  which is not among the sources. Dropping a database or a collection and deleting many
  documents at once are dangerous, server status and replica-set status are
  administrative, the six index operations are index operations, the other modifying
  operations are writes, and the rest are reads. \<open>bulk_delete\<close> reads the flag
  \<open>delete_many\<close>, the fourth positional argument of \<open>delete_document\<close>.
\<close>

definition bulk_delete :: "pyval list \<Rightarrow> bool" where
  "bulk_delete args = (case drop 3 args of PBool True # rest \<Rightarrow> True | _ \<Rightarrow> False)"

fun operation_class :: "tool_fn \<Rightarrow> pyval list \<Rightarrow> op_class" where
  "operation_class drop_database args = OpDangerous"
| "operation_class drop_collection args = OpDangerous"
| "operation_class delete_document args = (if bulk_delete args then OpDangerous else OpWrite)"
| "operation_class get_server_status args = OpAdmin"
| "operation_class get_replica_set_status args = OpAdmin"
| "operation_class list_indexes args = OpIndex"
| "operation_class create_index args = OpIndex"
| "operation_class create_text_index args = OpIndex"
| "operation_class create_compound_index args = OpIndex"
| "operation_class drop_index args = OpIndex"
| "operation_class reindex_collection args = OpIndex"
| "operation_class create_database args = OpWrite"
| "operation_class create_collection args = OpWrite"
| "operation_class rename_collection args = OpWrite"
| "operation_class insert_document args = OpWrite"
| "operation_class insert_many_documents args = OpWrite"
| "operation_class update_document args = OpWrite"
| "operation_class replace_document args = OpWrite"
| "operation_class f args = OpRead"

text \<open>
  Modelled from the spec: \<open>authorize\<close> of the Capability Gate, which is not among the
  sources. Reads and writes are always allowed; a dangerous, administrative or index
  operation is allowed only if its flag is set.
\<close>

fun authorize :: "config \<Rightarrow> op_class \<Rightarrow> bool" where
  "authorize c OpRead = True"
| "authorize c OpWrite = True"
| "authorize c OpDangerous = ENABLE_DANGEROUS_OPERATIONS c"
| "authorize c OpAdmin = ENABLE_ADMIN_OPERATIONS c"
| "authorize c OpIndex = ENABLE_INDEX_OPERATIONS c"

text \<open>
  Modelled from the spec: the validation of the required arguments by the functions of
  \<open>mongo_mcp.tools\<close>, which is not among the sources. \<open>required_names\<close> is how many of
  the leading positional arguments are names that must be non-empty strings: the
  database name, then the collection names. The functions without a database name, and
  \<open>ping_database\<close>, whose database name is optional, require none.
\<close>

fun required_names :: "tool_fn \<Rightarrow> nat" where
  "required_names list_databases = 0"
| "required_names get_server_status = 0"
| "required_names get_replica_set_status = 0"
| "required_names ping_database = 0"
| "required_names test_mongodb_connection = 0"
| "required_names get_connection_details = 0"
| "required_names list_collections = 1"
| "required_names create_database = 1"
| "required_names drop_database = 1"
| "required_names get_database_stats = 1"
| "required_names rename_collection = 3"
| "required_names f = 2"

definition nonempty_str :: "pyval \<Rightarrow> bool" where
  "nonempty_str v = (case v of PStr s \<Rightarrow> s \<noteq> [] | _ \<Rightarrow> False)"

definition validate :: "tool_fn \<Rightarrow> pyval list \<Rightarrow> bool" where
  "validate f args =
     (required_names f \<le> length args \<and> list_all nonempty_str (take (required_names f) args))"

text \<open>
  Modelled from the spec: the body of a function of \<open>mongo_mcp.tools\<close>, which is not
  among the sources. One invocation of the Tool Gateway: validate the required
  arguments, ask the capability gate, acquire the connection, execute the database
  primitive on the decoded arguments, encode the result. A driver failure becomes a
  \<open>DatabaseOperationError\<close> with the original message; nothing is retried.
\<close>

definition call_tool ::
    "config \<Rightarrow> collaborators \<Rightarrow> tool_fn \<Rightarrow> pyval list \<Rightarrow> world_state
       \<Rightarrow> (error + pyval) \<times> world_state" where
  "call_tool c x f args w =
     (if \<not> validate f args then (Inl ValidationError, w)
      else if \<not> authorize c (operation_class f args)
      then (Inl (CapabilityDeniedError (operation_class f args)), w)
      else (case get_client c x w of
              (Inl e, w1) \<Rightarrow> (Inl e, w1)
            | (Inr h, w1) \<Rightarrow>
                (let native = map (decode x) args;
                     w2 = w1\<lparr>effects := effects w1 @ [DatabaseCall f native]\<rparr>
                 in case respond x f native of
                      Inl msg \<Rightarrow> (Inl (DatabaseOperationError msg), w2)
                    | Inr v \<Rightarrow> (Inr (encode x v), w2))))"

text \<open>The database primitives invoked so far.\<close>

definition database_calls :: "world_state \<Rightarrow> effect list" where
  "database_calls w =
     filter (\<lambda>e. case e of DatabaseCall f args \<Rightarrow> True | _ \<Rightarrow> False) (effects w)"

text \<open>
  A database stub for concrete runs: reachable, it answers every primitive with an empty
  list, and the codec leaves every value as it is.
\<close>

definition database_stub :: collaborators where
  "database_stub = \<lparr>reachable = True, respond = (\<lambda>f args. Inr (PList [])),
                     encode = (\<lambda>v. v), decode = (\<lambda>v. v)\<rparr>"

section \<open>Properties\<close>

subsection \<open>Auxiliary facts\<close>

lemma lower_false: "lower ''false'' = ''false''"
  by code_simp

lemma lower_true: "lower ''true'' = ''true''"
  by code_simp

lemma environ_flag_unset:
  "env key = None \<Longrightarrow> environ_flag env key dflt = (lower dflt = ''true'')"
  by (simp add: environ_flag_def environ_get_def)


lemma default_transport:
  "MCP_TRANSPORT (load_config Map.empty ints) = ''sse''
 \<and> MCP_HOST (load_config Map.empty ints) = ''0.0.0.0''
 \<and> MCP_PORT (load_config Map.empty default_ints) = 8000"
  by (simp add: load_config_def environ_get_def default_ints_def)

text \<open>No function of the process touches the configuration.\<close>

lemma conf_do_close_connection: "conf (snd (do_close_connection close p)) = conf p"
  by (cases "close (world p)") (simp add: do_close_connection_def)

lemma conf_sys_exit: "conf (snd (sys_exit code p)) = conf p"
  by (simp add: sys_exit_def)

lemma conf_signal_handler: "conf (snd (signal_handler close sig frame p)) = conf p"
proof -
  let ?p1 = "logger_info [Text ''Shutting down MCP server''] p"
  obtain r p2 where d: "do_close_connection close ?p1 = (r, p2)"
    by (cases "do_close_connection close ?p1")
  have "conf p2 = conf p"
    using conf_do_close_connection [of close ?p1] d by (simp add: logger_info_def)
  with d show ?thesis
    by (cases r) (simp_all add: signal_handler_def Let_def conf_sys_exit)
qed

lemma conf_add_cors: "conf (snd (add_cors k p)) = conf p"
  by (cases k) (simp_all add: add_cors_def logger_info_def logger_warning_def)

lemma conf_app_run: "conf (snd (app_run a outcome p)) = conf p"
  by (simp add: app_run_def)

lemma conf_start_body: "conf (snd (start_body k outcome p)) = conf p"
proof -
  obtain r p1 where a: "add_cors k p = (r, p1)" by (cases "add_cors k p")
  have "conf p1 = conf p" using conf_add_cors [of k p] a by simp
  with a show ?thesis
    by (cases r) (simp_all add: start_body_def conf_app_run logger_info_def)
qed

lemma conf_start_server: "conf (snd (start_server close k outcome p)) = conf p"
proof -
  obtain r p1 where b: "start_body k outcome p = (r, p1)" by (cases "start_body k outcome p")
  have c1: "conf p1 = conf p" using conf_start_body [of k outcome p] b by simp
  show ?thesis
  proof (cases r)
    case (Inr u)
    with b c1 show ?thesis by (simp add: start_server_def)
  next
    case (Inl e)
    let ?p2 = "logger_error [Text ''Failed to start MCP server: '', ExnVal e] p1"
    obtain r' p3 where d: "do_close_connection close ?p2 = (r', p3)"
      by (cases "do_close_connection close ?p2")
    have "conf p3 = conf p"
      using conf_do_close_connection [of close ?p2] d c1 by (simp add: logger_error_def)
    with b Inl d c1 show ?thesis
      by (cases r') (simp_all add: start_server_def Let_def conf_sys_exit)
  qed
qed

lemma conf_deliver: "conf (snd (deliver close sig frame p)) = conf p"
  using conf_signal_handler [of close sig frame p]
  by (cases "signal_handler close sig frame p") (simp add: deliver_def)

lemma conf_main: "conf (main close k outcome p) = conf p"
proof -
  obtain r p' where s: "start_server close k outcome p = (r, p')"
    by (cases "start_server close k outcome p")
  have c: "conf p' = conf p" using conf_start_server [of close k outcome p] s by simp
  show ?thesis
  proof (cases r)
    case (Inr u)
    with s c show ?thesis by (simp add: main_def)
  next
    case (Inl e)
    with s c show ?thesis by (cases e) (simp_all add: main_def)
  qed
qed

lemma conf_step: "conf (step close tools ev p) = conf p"
  by (cases ev) (simp_all add: step_def conf_deliver conf_main)

lemma conf_run: "conf (run close tools evs p) = conf p"
  by (induction evs arbitrary: p) (simp_all add: conf_step)

text \<open>Looking a key up in the connection options, block by block.\<close>

lemma map_of_setitem: "map_of (setitem k v d) k' = (if k' = k then Some v else map_of d k')"
  by (simp add: setitem_def update_conv')

lemma map_of_add_socket_timeout:
  "map_of (add_socket_timeout c d) k =
     (if k = ''socketTimeoutMS'' \<and> MONGODB_SOCKET_TIMEOUT_MS c > 0
      then Some (PInt (MONGODB_SOCKET_TIMEOUT_MS c)) else map_of d k)"
  by (simp add: add_socket_timeout_def map_of_setitem)

lemma map_of_add_tls_options:
  "map_of (add_tls_options c d) k =
     (if \<not> MONGODB_TLS_ENABLED c then map_of d k
      else if k = ''tlsCertificateKeyFile'' \<and> MONGODB_TLS_CERT_FILE c \<noteq> None
              \<and> MONGODB_TLS_CERT_FILE c \<noteq> Some []
      then Some (PStr (the (MONGODB_TLS_CERT_FILE c)))
      else if k = ''tlsCAFile'' \<and> MONGODB_TLS_CA_FILE c \<noteq> None
              \<and> MONGODB_TLS_CA_FILE c \<noteq> Some []
      then Some (PStr (the (MONGODB_TLS_CA_FILE c)))
      else if k = ''tls'' then Some (PBool True)
      else map_of d k)"
  by (cases "MONGODB_TLS_CA_FILE c"; cases "MONGODB_TLS_CERT_FILE c")
     (simp_all add: add_tls_options_def map_of_setitem Let_def)

lemma map_of_add_auth_mechanism:
  "map_of (add_auth_mechanism c d) k =
     (if k = ''authMechanism'' \<and> MONGODB_AUTH_MECHANISM c \<noteq> None
         \<and> MONGODB_AUTH_MECHANISM c \<noteq> Some []
      then Some (PStr (the (MONGODB_AUTH_MECHANISM c))) else map_of d k)"
  by (cases "MONGODB_AUTH_MECHANISM c") (simp_all add: add_auth_mechanism_def map_of_setitem)

lemmas map_of_options = get_connection_options_def Let_def map_of_add_auth_mechanism
  map_of_add_tls_options map_of_add_socket_timeout

text \<open>The modelled \<open>close_connection\<close> returns, and leaves the connection closed.\<close>

lemma close_connection_result: "fst (close_connection w) = Inr ()"
  by (cases "connection w") (simp_all add: close_connection_def)

lemma close_connection_closed: "connection (snd (close_connection w)) = Closed"
  by (cases "connection w") (simp_all add: close_connection_def)

lemma close_connection_again:
  "connection w = Closed \<Longrightarrow> close_connection w = (Inr (), w)"
  by (simp add: close_connection_def)

lemma close_times_closed:
  "connection w = Closed \<Longrightarrow> close_times k w = (replicate k (Inr ()), w)"
  by (induction k) (simp_all add: close_connection_again)


lemma required_names_pos:
  "f \<notin> set [list_databases, get_server_status, get_replica_set_status, ping_database,
             test_mongodb_connection, get_connection_details] \<Longrightarrow> 0 < required_names f"
  by (cases f) simp_all

lemma validate_first:
  assumes "0 < required_names f" and "validate f args"
  shows "\<exists>s rest. args = PStr s # rest \<and> s \<noteq> []"
proof -
  from assms obtain n where n: "required_names f = Suc n" by (cases "required_names f") auto
  with assms(2) obtain v rest where a: "args = v # rest" by (cases args) (auto simp: validate_def)
  with assms(2) n have "nonempty_str v" by (simp add: validate_def)
  then show ?thesis using a by (cases v) (auto simp: nonempty_str_def)
qed

text \<open>The start of the server in the default configuration, when \<open>app.run\<close> raises.\<close>

lemma start_body_fails:
  "start_body NoAsgiApp (Some e) (boot Map.empty default_ints initial_world)
   = (Inl e,
      (boot Map.empty default_ints initial_world)\<lparr>calls :=
         calls (boot Map.empty default_ints initial_world) @
           [LoggerInfo [Text ''Starting MCP server with '', Text ''sse'',
                        Text '' transport on '', Text ''0.0.0.0'', Text '':'', IntVal 8000],
            AppRun (RunNetwork ''sse'' ''0.0.0.0'' 8000)]\<rparr>)"
  by (simp add: start_body_def add_cors_def app_run_def logger_info_def boot_def
        default_transport)

subsection \<open>The capability gate\<close>



subsection \<open>The registered tools\<close>

text \<open>
  C2 (as stated, refuted). The claim says that every operation of the catalog is
  registered as a tool. \<open>mcp_drop_database\<close> is in the catalog \<open>mongo_tools\<close>, and its
  decorator is a comment: the application does not have it.
\<close>

theorem drop_database_not_registered:
  "''mcp_drop_database'' \<in> set mongo_tools \<and> ''mcp_drop_database'' \<notin> set app"
  by (simp add: mongo_tools_def app_def wrapper_definitions_def FastMCP_def app_tool_def)

text \<open>
  C2 (amended). Of the thirty operations of the catalog, the application registers the
  fifteen that read or monitor, in this order; the fifteen that create, modify or delete
  are defined and listed in \<open>mongo_tools\<close>, and not registered.
\<close>

theorem registered_tools:
  "app = [''mcp_list_databases'', ''mcp_list_collections'', ''mcp_get_database_stats'',
          ''mcp_get_collection_stats'', ''mcp_find_documents'', ''mcp_find_one_document'',
          ''mcp_count_documents'', ''mcp_list_indexes'', ''mcp_aggregate_documents'',
          ''mcp_distinct_values'', ''mcp_get_server_status'', ''mcp_get_replica_set_status'',
          ''mcp_ping_database'', ''mcp_test_mongodb_connection'',
          ''mcp_get_connection_details'']
   \<and> filter (\<lambda>name. name \<notin> set app) mongo_tools =
         [''mcp_create_database'', ''mcp_drop_database'', ''mcp_create_collection'',
          ''mcp_drop_collection'', ''mcp_rename_collection'', ''mcp_insert_document'',
          ''mcp_insert_many_documents'', ''mcp_update_document'', ''mcp_replace_document'',
          ''mcp_delete_document'', ''mcp_create_index'', ''mcp_create_text_index'',
          ''mcp_create_compound_index'', ''mcp_drop_index'', ''mcp_reindex_collection'']
   \<and> length mongo_tools = 30"
  by (simp add: mongo_tools_def app_def wrapper_definitions_def FastMCP_def app_tool_def)

subsection \<open>The connection options\<close>

text \<open>
  C5 (as stated, refuted). The claim says that the socket timeout, the TLS key file and
  the read-preference, write-concern and read-concern defaults all appear in the
  connection options. With TLS enabled and every one of these variables set (and the
  socket timeout left at \<open>0\<close>), the options hold ten entries, and none of them.
\<close>

theorem connection_options_omissions:
  "get_connection_options (load_config tls_environ default_ints) =
     [(''minPoolSize'', PInt 0), (''maxPoolSize'', PInt 100), (''maxIdleTimeMS'', PInt 30000),
      (''serverSelectionTimeoutMS'', PInt 30000), (''connectTimeoutMS'', PInt 20000),
      (''authSource'', PStr ''admin''), (''tls'', PBool True), (''tlsCAFile'', PStr ''ca.pem''),
      (''tlsCertificateKeyFile'', PStr ''cert.pem''),
      (''authMechanism'', PStr ''SCRAM-SHA-256'')]
 \<and> MONGODB_SOCKET_TIMEOUT_MS (load_config tls_environ default_ints) = 0
 \<and> MONGODB_TLS_KEY_FILE (load_config tls_environ default_ints) = Some ''key.pem''
 \<and> MONGODB_READ_PREFERENCE (load_config tls_environ default_ints) = ''secondary''
 \<and> MONGODB_WRITE_CONCERN_W (load_config tls_environ default_ints) = ''majority''
 \<and> MONGODB_WRITE_CONCERN_J (load_config tls_environ default_ints)
 \<and> MONGODB_READ_CONCERN_LEVEL (load_config tls_environ default_ints) = ''majority''"
proof -
  have "get_connection_options (load_config tls_environ default_ints) =
     [(''minPoolSize'', PInt 0), (''maxPoolSize'', PInt 100), (''maxIdleTimeMS'', PInt 30000),
      (''serverSelectionTimeoutMS'', PInt 30000), (''connectTimeoutMS'', PInt 20000),
      (''authSource'', PStr ''admin''), (''tls'', PBool True), (''tlsCAFile'', PStr ''ca.pem''),
      (''tlsCertificateKeyFile'', PStr ''cert.pem''),
      (''authMechanism'', PStr ''SCRAM-SHA-256'')]"
    by code_simp
  moreover have "MONGODB_SOCKET_TIMEOUT_MS (load_config tls_environ default_ints) = 0"
    by (simp add: load_config_def default_ints_def)
  moreover have "MONGODB_TLS_KEY_FILE (load_config tls_environ default_ints) = Some ''key.pem''"
    by (simp add: load_config_def tls_environ_def)
  moreover have "MONGODB_READ_PREFERENCE (load_config tls_environ default_ints) = ''secondary''"
    by (simp add: load_config_def tls_environ_def environ_get_def)
  moreover have "MONGODB_WRITE_CONCERN_W (load_config tls_environ default_ints) = ''majority''"
    by (simp add: load_config_def tls_environ_def environ_get_def)
  moreover have "MONGODB_WRITE_CONCERN_J (load_config tls_environ default_ints)"
    by (simp add: load_config_def tls_environ_def environ_flag_def environ_get_def lower_true)
  moreover have "MONGODB_READ_CONCERN_LEVEL (load_config tls_environ default_ints) = ''majority''"
    by (simp add: load_config_def tls_environ_def environ_get_def)
  ultimately show ?thesis by blast
qed

text \<open>
  C5 (amended). The connection options always hold the pool bounds, the idle timeout,
  the server-selection and connect timeouts and the authentication source, with the
  configured values. The socket timeout is there exactly when it is positive; the TLS
  flag exactly when TLS is enabled, and then the CA file and the certificate file when
  their paths are set and not empty; the authentication mechanism exactly when it is set
  and not empty.
\<close>

theorem connection_options_contents:
  "map_of (get_connection_options c) ''minPoolSize'' = Some (PInt (MONGODB_MIN_POOL_SIZE c))
 \<and> map_of (get_connection_options c) ''maxPoolSize'' = Some (PInt (MONGODB_MAX_POOL_SIZE c))
 \<and> map_of (get_connection_options c) ''maxIdleTimeMS'' =
      Some (PInt (MONGODB_MAX_IDLE_TIME_MS c))
 \<and> map_of (get_connection_options c) ''serverSelectionTimeoutMS'' =
      Some (PInt (MONGODB_SERVER_SELECTION_TIMEOUT_MS c))
 \<and> map_of (get_connection_options c) ''connectTimeoutMS'' =
      Some (PInt (MONGODB_CONNECT_TIMEOUT_MS c))
 \<and> map_of (get_connection_options c) ''authSource'' = Some (PStr (MONGODB_AUTH_SOURCE c))
 \<and> map_of (get_connection_options c) ''socketTimeoutMS'' =
      (if MONGODB_SOCKET_TIMEOUT_MS c > 0 then Some (PInt (MONGODB_SOCKET_TIMEOUT_MS c))
       else None)
 \<and> map_of (get_connection_options c) ''tls'' =
      (if MONGODB_TLS_ENABLED c then Some (PBool True) else None)
 \<and> map_of (get_connection_options c) ''tlsCAFile'' =
      (if MONGODB_TLS_ENABLED c
       then (case MONGODB_TLS_CA_FILE c of
               Some f \<Rightarrow> if f \<noteq> [] then Some (PStr f) else None | None \<Rightarrow> None)
       else None)
 \<and> map_of (get_connection_options c) ''tlsCertificateKeyFile'' =
      (if MONGODB_TLS_ENABLED c
       then (case MONGODB_TLS_CERT_FILE c of
               Some f \<Rightarrow> if f \<noteq> [] then Some (PStr f) else None | None \<Rightarrow> None)
       else None)
 \<and> map_of (get_connection_options c) ''authMechanism'' =
      (case MONGODB_AUTH_MECHANISM c of
         Some m \<Rightarrow> if m \<noteq> [] then Some (PStr m) else None | None \<Rightarrow> None)"
proof -
  have a: "map_of (get_connection_options c) ''minPoolSize'' =
      Some (PInt (MONGODB_MIN_POOL_SIZE c))"
    by (simp add: map_of_options)
  have b: "map_of (get_connection_options c) ''maxPoolSize'' =
      Some (PInt (MONGODB_MAX_POOL_SIZE c))"
    by (simp add: map_of_options)
  have d: "map_of (get_connection_options c) ''maxIdleTimeMS'' =
      Some (PInt (MONGODB_MAX_IDLE_TIME_MS c))"
    by (simp add: map_of_options)
  have e: "map_of (get_connection_options c) ''serverSelectionTimeoutMS'' =
      Some (PInt (MONGODB_SERVER_SELECTION_TIMEOUT_MS c))"
    by (simp add: map_of_options)
  have f: "map_of (get_connection_options c) ''connectTimeoutMS'' =
      Some (PInt (MONGODB_CONNECT_TIMEOUT_MS c))"
    by (simp add: map_of_options)
  have g: "map_of (get_connection_options c) ''authSource'' =
      Some (PStr (MONGODB_AUTH_SOURCE c))"
    by (simp add: map_of_options)
  have h: "map_of (get_connection_options c) ''socketTimeoutMS'' =
      (if MONGODB_SOCKET_TIMEOUT_MS c > 0 then Some (PInt (MONGODB_SOCKET_TIMEOUT_MS c))
       else None)"
    by (simp add: map_of_options)
  have i: "map_of (get_connection_options c) ''tls'' =
      (if MONGODB_TLS_ENABLED c then Some (PBool True) else None)"
    by (simp add: map_of_options)
  have j: "map_of (get_connection_options c) ''tlsCAFile'' =
      (if MONGODB_TLS_ENABLED c
       then (case MONGODB_TLS_CA_FILE c of
               Some f \<Rightarrow> if f \<noteq> [] then Some (PStr f) else None | None \<Rightarrow> None)
       else None)"
    by (cases "MONGODB_TLS_CA_FILE c") (simp_all add: map_of_options)
  have k: "map_of (get_connection_options c) ''tlsCertificateKeyFile'' =
      (if MONGODB_TLS_ENABLED c
       then (case MONGODB_TLS_CERT_FILE c of
               Some f \<Rightarrow> if f \<noteq> [] then Some (PStr f) else None | None \<Rightarrow> None)
       else None)"
    by (cases "MONGODB_TLS_CERT_FILE c") (simp_all add: map_of_options)
  have l: "map_of (get_connection_options c) ''authMechanism'' =
      (case MONGODB_AUTH_MECHANISM c of
         Some m \<Rightarrow> if m \<noteq> [] then Some (PStr m) else None | None \<Rightarrow> None)"
    by (cases "MONGODB_AUTH_MECHANISM c") (simp_all add: map_of_options)
  from a b d e f g h i j k l show ?thesis by blast
qed

subsection \<open>Closing the connection\<close>

text \<open>
  C6 (on the modelled connection manager). Calling \<open>close_connection\<close> \<open>k\<close> times, for
  any \<open>k\<close> from one on, leaves the state that a single call leaves, and every one of the
  \<open>k\<close> calls returns without an error. This holds from any state, so also when the
  connection was never acquired.
\<close>

theorem close_connection_idempotent:
  assumes "1 \<le> k"
  shows "close_times k w = (replicate k (Inr ()), snd (close_connection w))"
proof -
  from assms obtain j where k: "k = Suc j" by (cases k) auto
  obtain r w' where c: "close_connection w = (r, w')" by (cases "close_connection w")
  have r: "r = Inr ()" using close_connection_result [of w] c by simp
  have "connection w' = Closed" using close_connection_closed [of w] c by simp
  then have "close_times j w' = (replicate j (Inr ()), w')" by (rule close_times_closed)
  with k c r show ?thesis by simp
qed

theorem close_connection_idempotent_witness:
  "close_times 3 initial_world =
     ([Inr (), Inr (), Inr ()], \<lparr>connection = Closed, effects = []\<rparr>)
 \<and> close_connection initial_world = (Inr (), \<lparr>connection = Closed, effects = []\<rparr>)"
  using close_connection_idempotent [of 3 initial_world]
  by (simp add: close_connection_def initial_world_def numeral_3_eq_3)

subsection \<open>Validation of the database name\<close>

text \<open>
  C7 (on the modelled gateway). For every function of the tools module with a required
  database name (all but the six that are listed), a call whose database name is
  missing (no argument, or \<open>None\<close>) or empty fails with \<open>ValidationError\<close> and leaves the
  state as it was: the connection manager is not reached and no database primitive is
  invoked.
\<close>

theorem missing_database_name_rejected:
  assumes "f \<notin> set [list_databases, get_server_status, get_replica_set_status, ping_database,
                     test_mongodb_connection, get_connection_details]"
    and "take 1 args = [] \<or> take 1 args = [PNone] \<or> take 1 args = [PStr []]"
  shows "call_tool c x f args w = (Inl ValidationError, w)"
proof -
  have "\<not> validate f args"
  proof
    assume "validate f args"
    with validate_first [OF required_names_pos [OF assms(1)]]
    obtain s rest where "args = PStr s # rest" "s \<noteq> []" by blast
    with assms(2) show False by simp
  qed
  then show ?thesis by (simp add: call_tool_def)
qed

theorem missing_database_name_rejected_witness:
  "mcp_list_collections (call_tool (load_config Map.empty default_ints) database_stub)
     (PStr '''') initial_world = (Inl ValidationError, initial_world)
 \<and> mcp_list_collections (call_tool (load_config Map.empty default_ints) database_stub)
     PNone initial_world = (Inl ValidationError, initial_world)"
  using missing_database_name_rejected [of list_collections "[PStr '''']"
          "load_config Map.empty default_ints" database_stub initial_world]
        missing_database_name_rejected [of list_collections "[PNone]"
          "load_config Map.empty default_ints" database_stub initial_world]
  by (simp add: mcp_list_collections_def)

subsection \<open>The feature flags\<close>

text \<open>
  C8. When the three variables are not set, dangerous operations are disabled and
  administrative and index operations are enabled. The flags are bound once, at import:
  whatever happens afterwards (the environment changes, tools are invoked, signals
  arrive, the server starts), and whatever the imported modules do, the configuration
  of the process is the one loaded from the environment of the start.
\<close>

theorem feature_flag_defaults:
  assumes "env ''ENABLE_DANGEROUS_OPERATIONS'' = None"
    and "env ''ENABLE_ADMIN_OPERATIONS'' = None"
    and "env ''ENABLE_INDEX_OPERATIONS'' = None"
  shows "\<not> ENABLE_DANGEROUS_OPERATIONS (load_config env ints)
       \<and> ENABLE_ADMIN_OPERATIONS (load_config env ints)
       \<and> ENABLE_INDEX_OPERATIONS (load_config env ints)
       \<and> conf (run close tools evs (boot env ints w)) = load_config env ints"
  using assms
  by (simp add: conf_run boot_def load_config_def environ_flag_unset lower_false lower_true)

theorem feature_flag_defaults_witness:
  "\<not> ENABLE_DANGEROUS_OPERATIONS (load_config Map.empty default_ints)
   \<and> ENABLE_ADMIN_OPERATIONS (load_config Map.empty default_ints)
   \<and> ENABLE_INDEX_OPERATIONS (load_config Map.empty default_ints)
   \<and> conf (run close_connection
             (\<lambda>f args w. snd (call_tool (load_config Map.empty default_ints) database_stub
                                  f args w))
             [Putenv ''ENABLE_DANGEROUS_OPERATIONS'' ''true'',
              ToolCall drop_database [PStr ''test''], Signal SIGTERM]
             (boot Map.empty default_ints initial_world)) = load_config Map.empty default_ints"
  using feature_flag_defaults [of Map.empty default_ints close_connection
      "\<lambda>f args w. snd (call_tool (load_config Map.empty default_ints) database_stub f args w)"
      "[Putenv ''ENABLE_DANGEROUS_OPERATIONS'' ''true'', ToolCall drop_database [PStr ''test''],
        Signal SIGTERM]" initial_world]
  by simp

subsection \<open>Shutdown\<close>

text \<open>
  C9 (as stated, refuted). The claim says that \<open>close_connection\<close> is invoked before
  the process exits on every termination signal and on every start-up failure.
  \<open>SIGHUP\<close> has no handler: it kills the process and nothing is called. A start-up
  failure that \<open>app.run\<close> raises as \<open>SystemExit\<close> passes the \<open>except Exception\<close>
  clause: the process exits with status \<open>1\<close> and \<open>close_connection\<close> is not called.
\<close>

theorem shutdown_without_close:
  "(\<lambda>(r, p). (r, calls p, status p))
     (deliver close_connection SIGHUP () (boot Map.empty default_ints initial_world))
   = (None,
      [LoggerInfo [Text ''Registered '', IntVal 30, Text '' MongoDB tools with MCP server'']],
      Killed SIGHUP)
 \<and> (\<lambda>p. (calls p, status p))
     (main close_connection NoAsgiApp (Some (SystemExit 1))
        (boot Map.empty default_ints initial_world))
   = ([LoggerInfo [Text ''Registered '', IntVal 30, Text '' MongoDB tools with MCP server''],
       LoggerInfo [Text ''Starting MCP server with '', Text ''sse'', Text '' transport on '',
                   Text ''0.0.0.0'', Text '':'', IntVal 8000],
       AppRun (RunNetwork ''sse'' ''0.0.0.0'' 8000)],
      Exited 1)"
proof -
  have "deliver close_connection SIGHUP () (boot Map.empty default_ints initial_world)
          = (None, (boot Map.empty default_ints initial_world)\<lparr>status := Killed SIGHUP\<rparr>)"
    by (simp add: deliver_def handled_signals_def)
  moreover have "start_server close_connection NoAsgiApp (Some (SystemExit 1))
                   (boot Map.empty default_ints initial_world)
          = (Inl (SystemExit 1),
             (boot Map.empty default_ints initial_world)\<lparr>calls :=
                calls (boot Map.empty default_ints initial_world) @
                  [LoggerInfo [Text ''Starting MCP server with '', Text ''sse'',
                               Text '' transport on '', Text ''0.0.0.0'', Text '':'',
                               IntVal 8000],
                   AppRun (RunNetwork ''sse'' ''0.0.0.0'' 8000)]\<rparr>)"
    by (simp add: start_server_def start_body_fails is_Exception_def)
  ultimately show ?thesis
    by (simp add: main_def boot_def mongo_tools_def)
qed

text \<open>
  C9 (amended). On \<open>SIGINT\<close> and on \<open>SIGTERM\<close>, the signals with the handler installed,
  the handler logs, calls \<open>close_connection\<close>, and exits with status \<open>0\<close> after the call
  has returned. When the body of \<open>start_server\<close> raises an \<open>Exception\<close>, the handler
  logs the error, calls \<open>close_connection\<close>, and exits with status \<open>1\<close> after the call
  has returned. On both paths \<open>close_connection\<close> is called before the exit, whatever
  \<open>close_connection\<close> does; if the call itself raises, its exception propagates and
  \<open>sys.exit\<close> is not reached.
\<close>

theorem shutdown_closes_connection:
  "((sig = SIGINT \<or> sig = SIGTERM) \<and> close (world p) = (r, w) \<longrightarrow>
      deliver close sig frame p =
        (case r of
           Inr u \<Rightarrow>
             (Some (Inl (SystemExit 0)),
              p\<lparr>world := w,
                calls := calls p @ [LoggerInfo [Text ''Shutting down MCP server''],
                                    CloseConnection, SysExit 0],
                status := Exited 0\<rparr>)
         | Inl e' \<Rightarrow>
             (Some (Inl e'),
              p\<lparr>world := w,
                calls := calls p @ [LoggerInfo [Text ''Shutting down MCP server''],
                                    CloseConnection]\<rparr>)))
 \<and> (start_body k outcome p = (Inl (Exception msg), p1) \<and> close (world p1) = (r1, w1) \<longrightarrow>
      start_server close k outcome p =
        (case r1 of
           Inr u \<Rightarrow>
             (Inl (SystemExit 1),
              p1\<lparr>world := w1,
                 calls := calls p1 @ [LoggerError [Text ''Failed to start MCP server: '',
                                                   ExnVal (Exception msg)],
                                      CloseConnection, SysExit 1],
                 status := Exited 1\<rparr>)
         | Inl e' \<Rightarrow>
             (Inl e',
              p1\<lparr>world := w1,
                 calls := calls p1 @ [LoggerError [Text ''Failed to start MCP server: '',
                                                   ExnVal (Exception msg)],
                                      CloseConnection]\<rparr>)))"
proof (intro conjI impI)
  assume "(sig = SIGINT \<or> sig = SIGTERM) \<and> close (world p) = (r, w)"
  then show "deliver close sig frame p =
        (case r of
           Inr u \<Rightarrow>
             (Some (Inl (SystemExit 0)),
              p\<lparr>world := w,
                calls := calls p @ [LoggerInfo [Text ''Shutting down MCP server''],
                                    CloseConnection, SysExit 0],
                status := Exited 0\<rparr>)
         | Inl e' \<Rightarrow>
             (Some (Inl e'),
              p\<lparr>world := w,
                calls := calls p @ [LoggerInfo [Text ''Shutting down MCP server''],
                                    CloseConnection]\<rparr>))"
    by (cases r)
       (auto simp: deliver_def handled_signals_def signal_handler_def do_close_connection_def
          sys_exit_def logger_info_def Let_def)
next
  assume "start_body k outcome p = (Inl (Exception msg), p1) \<and> close (world p1) = (r1, w1)"
  then show "start_server close k outcome p =
        (case r1 of
           Inr u \<Rightarrow>
             (Inl (SystemExit 1),
              p1\<lparr>world := w1,
                 calls := calls p1 @ [LoggerError [Text ''Failed to start MCP server: '',
                                                   ExnVal (Exception msg)],
                                      CloseConnection, SysExit 1],
                 status := Exited 1\<rparr>)
         | Inl e' \<Rightarrow>
             (Inl e',
              p1\<lparr>world := w1,
                 calls := calls p1 @ [LoggerError [Text ''Failed to start MCP server: '',
                                                   ExnVal (Exception msg)],
                                      CloseConnection]\<rparr>))"
    by (cases r1)
       (simp_all add: start_server_def do_close_connection_def sys_exit_def
          logger_error_def is_Exception_def Let_def)
qed

theorem shutdown_closes_connection_witness:
  "(\<lambda>(r, p). (r, calls p, status p, connection (world p)))
     (deliver close_connection SIGTERM () (boot Map.empty default_ints initial_world))
   = (Some (Inl (SystemExit 0)),
      [LoggerInfo [Text ''Registered '', IntVal 30, Text '' MongoDB tools with MCP server''],
       LoggerInfo [Text ''Shutting down MCP server''], CloseConnection, SysExit 0],
      Exited 0, Closed)
 \<and> (\<lambda>(r, p). (r, calls p, status p, connection (world p)))
     (start_server close_connection NoAsgiApp
        (Some (Exception ''Already running asyncio in this thread''))
        (boot Map.empty default_ints initial_world))
   = (Inl (SystemExit 1),
      [LoggerInfo [Text ''Registered '', IntVal 30, Text '' MongoDB tools with MCP server''],
       LoggerInfo [Text ''Starting MCP server with '', Text ''sse'', Text '' transport on '',
                   Text ''0.0.0.0'', Text '':'', IntVal 8000],
       AppRun (RunNetwork ''sse'' ''0.0.0.0'' 8000),
       LoggerError [Text ''Failed to start MCP server: '',
                    ExnVal (Exception ''Already running asyncio in this thread'')],
       CloseConnection, SysExit 1],
      Exited 1, Closed)"
  using shutdown_closes_connection [of SIGTERM close_connection
          "boot Map.empty default_ints initial_world" "Inr ()"
          "\<lparr>connection = Closed, effects = []\<rparr>" "()" NoAsgiApp
          "Some (Exception ''Already running asyncio in this thread'')"
          "''Already running asyncio in this thread''"
          "(boot Map.empty default_ints initial_world)\<lparr>calls :=
             calls (boot Map.empty default_ints initial_world) @
               [LoggerInfo [Text ''Starting MCP server with '', Text ''sse'',
                            Text '' transport on '', Text ''0.0.0.0'', Text '':'', IntVal 8000],
                AppRun (RunNetwork ''sse'' ''0.0.0.0'' 8000)]\<rparr>"
          "Inr ()" "\<lparr>connection = Closed, effects = []\<rparr>"]
        start_body_fails [of "Exception ''Already running asyncio in this thread''"]
  by (simp add: boot_def close_connection_def initial_world_def mongo_tools_def)

subsection \<open>The wrappers\<close>

text \<open>
  C10. Every wrapper returns what the function of the tools module with the
  corresponding name returns on the wrapper's own arguments, in the order of its
  parameters, whatever the tools module is. An optional argument that the caller
  supplies is forwarded as it is; one that the caller leaves out is passed as the
  default of the wrapper's signature. Nothing is validated, gated, encoded or caught on
  the way.
\<close>

theorem wrappers_pass_through:
  "mcp_list_databases T = T list_databases []
 \<and> mcp_list_collections T database_name = T list_collections [database_name]
 \<and> mcp_create_database T database_name initial_collection initial_document =
     T create_database [database_name,
        (case initial_collection of None \<Rightarrow> PStr ''init'' | Some v \<Rightarrow> v),
        (case initial_document of None \<Rightarrow> PNone | Some v \<Rightarrow> v)]
 \<and> mcp_drop_database T database_name = T drop_database [database_name]
 \<and> mcp_get_database_stats T database_name = T get_database_stats [database_name]
 \<and> mcp_create_collection T database_name collection_name options =
     T create_collection [database_name, collection_name,
        (case options of None \<Rightarrow> PNone | Some v \<Rightarrow> v)]
 \<and> mcp_drop_collection T database_name collection_name =
     T drop_collection [database_name, collection_name]
 \<and> mcp_rename_collection T database_name old_name new_name =
     T rename_collection [database_name, old_name, new_name]
 \<and> mcp_get_collection_stats T database_name collection_name =
     T get_collection_stats [database_name, collection_name]
 \<and> mcp_insert_document T database_name collection_name document =
     T insert_document [database_name, collection_name, document]
 \<and> mcp_insert_many_documents T database_name collection_name docs ordered =
     T insert_many_documents [database_name, collection_name, docs,
        (case ordered of None \<Rightarrow> PBool True | Some v \<Rightarrow> v)]
 \<and> mcp_find_documents T database_name collection_name query projection limit sort_arg =
     T find_documents [database_name, collection_name, query,
        (case projection of None \<Rightarrow> PNone | Some v \<Rightarrow> v),
        (case limit of None \<Rightarrow> PInt 0 | Some v \<Rightarrow> v),
        (case sort_arg of None \<Rightarrow> PNone | Some v \<Rightarrow> v)]
 \<and> mcp_find_one_document T database_name collection_name query projection =
     T find_one_document [database_name, collection_name, query,
        (case projection of None \<Rightarrow> PNone | Some v \<Rightarrow> v)]
 \<and> mcp_count_documents T database_name collection_name query =
     T count_documents [database_name, collection_name, query]
 \<and> mcp_update_document T database_name collection_name query update_data upsert update_many =
     T update_document [database_name, collection_name, query, update_data,
        (case upsert of None \<Rightarrow> PBool False | Some v \<Rightarrow> v),
        (case update_many of None \<Rightarrow> PBool False | Some v \<Rightarrow> v)]
 \<and> mcp_replace_document T database_name collection_name query replacement upsert =
     T replace_document [database_name, collection_name, query, replacement,
        (case upsert of None \<Rightarrow> PBool False | Some v \<Rightarrow> v)]
 \<and> mcp_delete_document T database_name collection_name query delete_many =
     T delete_document [database_name, collection_name, query,
        (case delete_many of None \<Rightarrow> PBool False | Some v \<Rightarrow> v)]
 \<and> mcp_list_indexes T database_name collection_name =
     T list_indexes [database_name, collection_name]
 \<and> mcp_create_index T database_name collection_name index_keys options =
     T create_index [database_name, collection_name, index_keys,
        (case options of None \<Rightarrow> PNone | Some v \<Rightarrow> v)]
 \<and> mcp_create_text_index T database_name collection_name fields_arg options =
     T create_text_index [database_name, collection_name, fields_arg,
        (case options of None \<Rightarrow> PNone | Some v \<Rightarrow> v)]
 \<and> mcp_create_compound_index T database_name collection_name field_specs options =
     T create_compound_index [database_name, collection_name, field_specs,
        (case options of None \<Rightarrow> PNone | Some v \<Rightarrow> v)]
 \<and> mcp_drop_index T database_name collection_name index_name =
     T drop_index [database_name, collection_name, index_name]
 \<and> mcp_reindex_collection T database_name collection_name =
     T reindex_collection [database_name, collection_name]
 \<and> mcp_aggregate_documents T database_name collection_name pipeline options =
     T aggregate_documents [database_name, collection_name, pipeline,
        (case options of None \<Rightarrow> PNone | Some v \<Rightarrow> v)]
 \<and> mcp_distinct_values T database_name collection_name field query_opt =
     T distinct_values [database_name, collection_name, field,
        (case query_opt of None \<Rightarrow> PNone | Some v \<Rightarrow> v)]
 \<and> mcp_get_server_status T = T get_server_status []
 \<and> mcp_get_replica_set_status T = T get_replica_set_status []
 \<and> mcp_ping_database T database_name_opt = T ping_database [
        (case database_name_opt of None \<Rightarrow> PNone | Some v \<Rightarrow> v)]
 \<and> mcp_test_mongodb_connection T = T test_mongodb_connection []
 \<and> mcp_get_connection_details T = T get_connection_details []"
  unfolding mcp_list_databases_def mcp_list_collections_def mcp_create_database_def
    mcp_drop_database_def mcp_get_database_stats_def mcp_create_collection_def
    mcp_drop_collection_def mcp_rename_collection_def mcp_get_collection_stats_def
    mcp_insert_document_def mcp_insert_many_documents_def mcp_find_documents_def
    mcp_find_one_document_def mcp_count_documents_def mcp_update_document_def
    mcp_replace_document_def mcp_delete_document_def mcp_list_indexes_def mcp_create_index_def
    mcp_create_text_index_def mcp_create_compound_index_def mcp_drop_index_def
    mcp_reindex_collection_def mcp_aggregate_documents_def mcp_distinct_values_def
    mcp_get_server_status_def mcp_get_replica_set_status_def mcp_ping_database_def
    mcp_test_mongodb_connection_def mcp_get_connection_details_def arg_default_def
  by (intro conjI refl)

end
